theory Spec2Isabelle
  imports Main "HOL-Library.Sublist"
begin

section \<open>Series, cells and tokens\<close>

text \<open>
  The cleaning helpers of \<^verbatim>\<open>helpers.py\<close> work on pandas series of dtype object. A series
  is modelled as the list of its (index label, value) pairs, in storage order; labels may repeat,
  as they do after \<^verbatim>\<open>explode\<close>. A raw cell is a Python string, the missing value, or some other
  object; the \<^verbatim>\<open>.str\<close> accessor reads anything that is not a string as missing. After the
  first \<^verbatim>\<open>.str\<close> call every value is a string or missing: a token.

  Strings are Isabelle strings, so a character is one of 256 codes; upper-casing and trimming are
  those of Python on ASCII text (trimming also knows the Latin-1 blanks). The dtype inference of
  pandas is not modelled: every series is an object series that the \<^verbatim>\<open>.str\<close> accessor
  accepts.
\<close>

datatype cell = Str string | NaN | NonStr

type_synonym token = "string option"

type_synonym 'a series = "(nat \<times> 'a) list"

datatype error = AttributeError

definition range_index :: "'a list \<Rightarrow> 'a series" where
  "range_index xs = enumerate 0 xs"

fun str_of :: "cell \<Rightarrow> token" where
  "str_of (Str x) = Some x"
| "str_of NaN = None"
| "str_of NonStr = None"

definition str_accessor :: "cell series \<Rightarrow> token series" where
  "str_accessor col = map (apsnd str_of) col"

subsection \<open>Python string primitives\<close>

definition whitespace :: "char list" where
  "whitespace = [CHR 0x09, CHR 0x0A, CHR 0x0B, CHR 0x0C, CHR 0x0D, CHR 0x1C, CHR 0x1D,
     CHR 0x1E, CHR 0x1F, CHR 0x20, CHR 0x85, CHR 0xA0]"

definition strip :: "string \<Rightarrow> string" where
  "strip x = rev (dropWhile (\<lambda>c. c \<in> set whitespace) (rev (dropWhile (\<lambda>c. c \<in> set whitespace) x)))"

definition char_upper :: "char \<Rightarrow> char" where
  "char_upper c = (case map_of (zip ''abcdefghijklmnopqrstuvwxyz'' ''ABCDEFGHIJKLMNOPQRSTUVWXYZ'') c of
      None \<Rightarrow> c | Some u \<Rightarrow> u)"

definition upper :: "string \<Rightarrow> string" where
  "upper x = map char_upper x"

text \<open>
  \<^verbatim>\<open>re.split\<close> for a pattern that is a character class, and \<^verbatim>\<open>str.split\<close> for a one-character
  separator: the string is cut at every character of the class, empty pieces are kept, and the
  empty string gives one empty piece. The result is never the empty list, so the first branch
  of the \<open>case\<close> below is never taken. Every separator pattern of the repository is such a class,
  so a pattern is modelled as the list of its characters.
\<close>

fun re_split :: "char list \<Rightarrow> string \<Rightarrow> string list" where
  "re_split pat [] = [[]]"
| "re_split pat (c # x) =
     (if c \<in> set pat then [] # re_split pat x
      else (case re_split pat x of [] \<Rightarrow> [[c]] | p # ps \<Rightarrow> (c # p) # ps))"

text \<open>\<^verbatim>\<open>re.sub\<close> of a character class by the empty string.\<close>

definition re_sub_empty :: "char list \<Rightarrow> string \<Rightarrow> string" where
  "re_sub_empty pat x = filter (\<lambda>c. c \<notin> set pat) x"

text \<open>\<^verbatim>\<open>sep.join(xs)\<close>.\<close>

fun join :: "string \<Rightarrow> string list \<Rightarrow> string" where
  "join sep [] = []"
| "join sep [x] = x"
| "join sep (x # y # ys) = x @ sep @ join sep (y # ys)"

subsection \<open>The pandas operations the helpers chain\<close>

text \<open>
  Each \<^verbatim>\<open>.str\<close> method maps over the values and leaves a missing value missing.
  \<^verbatim>\<open>explode\<close> gives every element of a list its own row under the list's label; a missing value
  and an empty list give one missing row.
\<close>

definition str_split :: "char list \<Rightarrow> token series \<Rightarrow> (string list option) series" where
  "str_split pat s = map (apsnd (map_option (re_split pat))) s"

fun explode_value :: "string list option \<Rightarrow> token list" where
  "explode_value None = [None]"
| "explode_value (Some []) = [None]"
| "explode_value (Some (x # xs)) = map Some (x # xs)"

definition explode :: "(string list option) series \<Rightarrow> token series" where
  "explode s = concat (map (\<lambda>(i, v). map (Pair i) (explode_value v)) s)"

definition str_strip :: "token series \<Rightarrow> token series" where
  "str_strip s = map (apsnd (map_option strip)) s"

definition str_upper :: "token series \<Rightarrow> token series" where
  "str_upper s = map (apsnd (map_option upper)) s"

text \<open>\<^verbatim>\<open>.replace(pat, "", regex=True)\<close> for a character class \<open>pat\<close>.\<close>

definition replace_regex_empty :: "char list \<Rightarrow> token series \<Rightarrow> token series" where
  "replace_regex_empty pat s = map (apsnd (map_option (re_sub_empty pat))) s"

text \<open>\<^verbatim>\<open>.replace([""], np.nan, regex=False)\<close>: an empty token becomes a missing one.\<close>

fun empty_nan :: "token \<Rightarrow> token" where
  "empty_nan None = None"
| "empty_nan (Some x) = (if x = [] then None else Some x)"

definition replace_empty_nan :: "token series \<Rightarrow> token series" where
  "replace_empty_nan s = map (apsnd empty_nan) s"

text \<open>\<^verbatim>\<open>result.replace(to_replace, replace_by, regex=False)\<close> with a list \<open>to_replace\<close>.\<close>

fun replace_value :: "string list \<Rightarrow> string \<Rightarrow> token \<Rightarrow> token" where
  "replace_value to_replace replace_by None = None"
| "replace_value to_replace replace_by (Some x) =
     (if x \<in> set to_replace then Some replace_by else Some x)"

definition replace_list :: "string list \<Rightarrow> string \<Rightarrow> token series \<Rightarrow> token series" where
  "replace_list to_replace replace_by s = map (apsnd (replace_value to_replace replace_by)) s"

section \<open>The helpers\<close>

text \<open>
  \<^verbatim>\<open>replace_series\<close>: the entries of the mapping are applied one after the other, in the order
  of the dictionary, each to the result of the one before.
\<close>

definition replace_series :: "token series \<Rightarrow> (string \<times> string list) list \<Rightarrow> token series" where
  "replace_series s replacement_mapping =
     foldl (\<lambda>result (replace_by, to_replace). replace_list to_replace replace_by result)
       s replacement_mapping"

fun replace_if_startswith :: "token \<Rightarrow> string \<Rightarrow> string \<Rightarrow> token" where
  "replace_if_startswith None pattern replace_by = None"
| "replace_if_startswith (Some x) pattern replace_by =
     (if prefix pattern x then Some replace_by else Some x)"

text \<open>
  \<^verbatim>\<open>squeeze_series\<close> is \<^verbatim>\<open>s.reset_index().groupby("index").agg(set).squeeze().str.join(";")\<close>.
  \<^verbatim>\<open>groupby\<close> makes one group for each label, the labels sorted; \<^verbatim>\<open>agg(set)\<close> turns a group
  into the Python set of its values. \<^verbatim>\<open>squeeze\<close> turns the one-column frame into a series,
  but a frame of one row and one column into its only element, a bare set, which has no
  \<^verbatim>\<open>.str\<close>: the call raises AttributeError. A frame without rows gives the empty series. \<^verbatim>\<open>.str.join\<close> gives the missing value for a set
  with an element that is not a string, and joins the elements in the set's iteration order
  otherwise. That order depends on the hashes of the strings, so it is a parameter \<open>set_iter\<close> of
  the model: the list of a group's values in, the elements of the set in iteration order out.
  The argument \<^verbatim>\<open>sep\<close> of the source is never read and is left out.
\<close>

definition set_iter_ok :: "(string list \<Rightarrow> string list) \<Rightarrow> bool" where
  "set_iter_ok set_iter = (\<forall>xs. distinct (set_iter xs) \<and> set (set_iter xs) = set xs)"

definition groupby_index :: "'a series \<Rightarrow> (nat \<times> 'a list) list" where
  "groupby_index s =
     map (\<lambda>k. (k, map snd (filter (\<lambda>r. fst r = k) s))) (sort (remdups (map fst s)))"

definition str_join :: "(string list \<Rightarrow> string list) \<Rightarrow> token list \<Rightarrow> token" where
  "str_join set_iter g =
     (if None \<in> set g then None else Some (join '';'' (set_iter (map the g))))"

definition squeeze_series :: "(string list \<Rightarrow> string list) \<Rightarrow> token series \<Rightarrow> error + token series" where
  "squeeze_series set_iter s =
     (let agg = groupby_index s
      in if length agg = 1 then Inl AttributeError
         else Inr (map (apsnd (str_join set_iter)) agg))"

section \<open>Rule tables\<close>

definition city_replacement_mapping :: "(string \<times> string list) list" where
  "city_replacement_mapping = [
    (''BARCELONA'', [''BARCELLONA'']),
    (''DUBLIN'', [''DUBLINO'']),
    (''EUROPE'', [''EU'', ''EUROPEROPE'']),
    (''FLORENCE'', [''FIRENZE'']),
    (''GENOA'', [''GENOVA'']),
    (''GENEVE'', [''GINEVRA'']),
    (''ITALY'', [''ITALY MULTIPLE LOCATION'']),
    (''REMOTE'', [''ANCHE REMOTO'', ''FULL REMOTE'']),
    (''LONDON'', [''LONDAN'', ''LONDRA'']),
    (''LAUSSANE'', [''LOSANNA'']),
    (''LUXEMBOURG'', [''LUSSEMBURGO'']),
    (''MILAN'', [''MI'', ''MILANO'', ''MILANO ROZZANO'', ''MILANO OR REMOTE'']),
    (''SWITZERLAND'', [''CH''])]"

definition country_replacement_mapping :: "(string \<times> string list) list" where
  "country_replacement_mapping = [
    (''IT'', [''ITALY'', ''ITALIA'', ''ITALT'', ''ITALY'', ''ITLAY'', ''`ITALY'', ''ITALIA O SVIZZERA'', ''IRALT'', ''MILAN'', ''ROMA'', ''VENETO'']),
    (''AR'', [''ARGENTINA'']),
    (''AU'', [''AUSTRALIA'']),
    (''BE'', [''BELGIO'']),
    (''FR'', [''FRANCE'']),
    (''DE'', [''GERMANY'']),
    (''HU'', [''HUNGARY'']),
    (''IE'', [''IRELAND'']),
    (''IL'', [''ISRAEL'']),
    (''JP'', [''JO'']),
    (''GB'', [''LONDON'', ''SCOZIA'', ''UK'', ''UNITED KINGDOM'']),
    (''US'', [''USA'']),
    (''LU'', [''LUXEMBOURG'']),
    (''MT'', [''MALTA'']),
    (''MD'', [''MOLDOVA'']),
    (''NO'', [''NORWAY'']),
    (''PL'', [''POLAND'']),
    (''RS'', [''SERBIA'']),
    (''SK'', [''SLOVACCHIA'']),
    (''ES'', [''SPAIN'']),
    (''CH'', [''SVIZZERA'', ''SWITZERLAND'']),
    (''SE'', [''SWEDEN'']),
    (''TR'', [''TURKEY'']),
    (''UA'', [''UKRAINE''])]"

definition skills_replacement_mapping :: "(string \<times> string list) list" where
  "skills_replacement_mapping = [
    (''BIG DATA'', [''BIGDATA'']),
    (''SPARK'', [''APACHE SPARK'', ''SPARQL'']),
    (''ARTIFICIAL INTELLIGENCE'', [''AI'']),
    (''AZURE'', [''AZURE AD'', ''AZURE PLATFORM'']),
    (''BASH'', [''BASH SCRIPTING'']),
    (''DATA SCIENCE'', [''DATA SCIENTIST'']),
    (''DATA VISUALIZATION'', [''DATA VISUALISATION'']),
    (''BUSINESS ANALYSIS'', [''BUSINESS ANALYST'']),
    (''BUSINESS INTELLIGENCE'', [''BI MICROSOFT'', ''BI'']),
    (''CONFIGURATION'', [''CONFIGURATION AND MONITORING'']),
    (''SW DEVELOPMENT'', [''DEVELOPERS'', ''DEVELOPER'', ''ENGINEERING AND SOFTWARE ARCHITECTURE DESIGN'']),
    (''DIGITAL INTELLIGENCE'', [''DI'']),
    (''FINTECH'', [''FINTECH ANALYSIS'']),
    (''HTML'', [''HTML5'']),
    (''JSON'', [''JSON LIBRARIES'']),
    (''LEAD'', [''LEADERSHIP AND COLLABORATION'', ''TEAM LEADER'', ''TEAM MANAGEMENT'', ''TECHNICAL LEAD'']),
    (''MARKETING'', [''MARKETO'']),
    (''DATA'', [''MASTER DATA'', ''DATA OFFICER'', ''DATA ROADMAP'']),
    (''DATA MANAGEMENT'', [''MASTER DATA MANAGEMENT'', ''DATA MANAGER'']),
    (''PYTHON'', [''PHYTON'', ''PYTHONI'', (''SKILLS:'' @ [CHR 0xA0] @ ''PYTHON'')]),
    (''QLIK'', [''QLIKVIEW'']),
    (''PREDICTIVE ANALYSIS'', [''PREDICTIVE'']),
    (''NOSQL'', [''REDIS AND OTHER NOSQL DATA BASE'']),
    (''PROJECT MANAGEMENT'', [''PROJECT MANAGER'', ''PROJECT MANAGERS'']),
    (''SQL'', [''MICROSOFT SQL SERVER'', ''MICROSOFT SQLSERVER'', ''DB2'', ''ORACLEDB'', ''POSTGRESQL'', ''MYSQL'', ''RDBMS'', ''DATABASE MYSQL'', ''DATABASE SQL'', ''POSTEGRESQL'', ''POSTGERSQL'', ''POSTGESQL'']),
    (''MOBILE'', [''MOBILE APPS'', ''MOBILE FRAMEWORKS'']),
    (''NLP'', [''NATURAL LANGUAGE UNDERSTANDING'', ''NATURAL LANGUAGE PROCESSING'']),
    (''CLOUD'', [''CLOUD COMPUTING'', ''CLOUD DEVELOPMENT'', ''GOOGLE CLOUD'', ''GOOGLE CLOUD PLATFORM'', ''MINIMAL EXPERIENCE WITH CLOUD ADMIN'']),
    (''FUNCTIONAL ANALYSIS'', [''FUNCTIONAL ANALYST'', ''FUNCTIONAL ANALYSYS'', ''ANALISTA FUNZIONALE'']),
    (''CONSULTANCY'', [''CONSULENTE'', ''CONSULTANTS'', ''CONSULTANT'', ''CONSULTING'', ''CONSULTATIVE BUSINESS DEVELOPMENT'', ''SKILLS: CONSULTING'', ''SENIOR CONSULTANT'']),
    (''RESOURCE DESCRIPTION FRAMEWORK'', [''RDF'']),
    (''API;REST'', [''API GATEWAY'', ''API REST'', ''REST'']),
    (''SAP'', [''SAP BW'', ''SAP APO'', ''SAP BI'', ''SAP BO'', ''SAP BPC'', ''SAP CO'', ''SAP CRM'', ''SAP FI'', ''SAP HANA'', ''SAP MM'', ''SAP PP'', ''SAP SD'', ''SAP SYCLO'', ''4HANA'']),
    (''ACCENTURE'', [''ACCENTURE INTERACTIVE'']),
    (''AGILE'', [''AGILE SOFTWARE DEVELOPMENT'']),
    (''ANDROID'', [''ANDROID DEVELOPMENT'', ''ANDRIOD'', ''ANDORID'', ''ANDR'', ''ANDRIOD SDK'']),
    (''ANGULAR JS'', [''ANGULAR.JS'', ''ANGULAR2'', ''ANGULARJS'', ''ANGOLARJS'', ''ANGULA'', ''ANGULSRJS'']),
    (''ASSET MANAGEMENT'', [''AM'']),
    (''AWS;AZURE'', [''AWS OR AZURE'']),
    (''BLOCKCHAIN'', [''BLOCKCHAIN DEVELOPMENT'']),
    (''BLUE PRISM;AUTOMATION ANYWHERE'', [''BLUE PRISM OR AUTOMATION ANYWHERE'']),
    (''CARD PAYMENTS;CASHLESS PAYMENTS'', [''CARDS'', ''CASHLESS PAYMENTS'']),
    (''CHIEF DATA OFFICER'', [''CDO'']),
    (''CSS'', [''CSS3'', ''CASCADING STYLE SHEETS'']),
    (''D3 JS'', [''D3'', ''D3JS'']),
    (''DATA ENGINEERING'', [''DATA ENGINEER'']),
    (''DATA GOVERNANCE'', [''DATA GOVERNANCE SOFTWARE'']),
    (''SECURITY'', [''IT SECURITY'', ''DEFINE AND SUPPORT IT SECURITY POLICY'', ''KNOWLEDGE OF SECURITY SYSTEMS AND ARCHITECTURES'', ''SECURITY'']),
    (''DISTRIBUTED COMPUTING'', [''DISTRIBUTED ARCHITECTURES'']),
    (''DOCKER;KUBERNETES'', [''DOCKER OR KUBERNETES'']),
    (''DATA WAREHOUSING'', [''DWH'']),
    (''WEB'', [''E UN WEB ARCHITECT'', ''WEBLOGIC 103'', ''STANNO CERCANDO 2 BACK END E 2 FULL STACK DEVELOPER'']),
    (''CLOUD;AWS;E2C'', [''EC2'']),
    (''BLOCKCHAIN;ETHEREUM'', [''ETHEREUM'']),
    (''FINANCE;FINANCIAL ANALYSIS'', [''FINANCIAL ANALYSIS'']),
    (''FINANCE;FINANCIAL FRAMEWORKS'', [''FINANCIAL FRAMEWORKS'']),
    (''GIT;REACT'', [''GIT AND A MINUMUM OF 2 YEARS EXPERIENCE WITH REACT'']),
    (''GIT'', [''GITHUB'']),
    (''HADOOP'', [''HDFS'', ''HADHOOP'', ''HADO'']),
    (''IT'', [''INFORMATICA'', ''IT SUPPORT ON MAC AND MICROSOFT HARDWARE'']),
    (''INFRASTRUCTURE'', [''INFRASTRUCTURE EXPERIENCE'', ''INFRASTRUCTURE INTEGRATION'', ''SYSTEM INTEGRATIONS'']),
    (''ISO 27001;IT SECURITY'', [''ISO 27001'', ''ISO27001LA'', ''IEC 27001'']),
    (''JAVA'', [''JAVA EE'', ''RXJAVA'', ''SKILLS: JAVA'', ''J2EE'']),
    (''JAVASCRIPT'', [''JS'']),
    (''MICROSOFT BI;BUSINESS INTELLIGENCE'', [''MICROSOFT BI'']),
    (''POWER BI;BUSINESS INTELLIGENCE'', [''POWER BI'']),
    (''MONGODB'', [''MONGO'']),
    (''MICROSOFT AD'', [''MS AD AUTHENTICATION'']),
    (''NEGOTIATION'', [''CONTRACT AND VENDOR NEGOTIATIONS'', ''NEGOTIATIONS'']),
    (''SALES'', [''PRESALES'', ''PRE SALES'', ''PRE-SALES AND BUDGET MANAGEMENT'']),
    (''PROJECT MANAGEMENT;PRODUCT MANAGEMENT'', [''PROJECT AND PRODUCT MANAGEMENT'']),
    (''RECOMMENDATION'', [''RECCOMENDATION'']),
    (''ROBOTIC'', [''ROBOTIC PROCESS AUTOMATION'']),
    (''AWS S3;AWS'', [''S3'']),
    (''SALESFORCE'', [''SALESFORCECOM'']),
    (''SAS'', [''SAS VISUAL ANALYTICS'', ''SASS'']),
    (''PYTHON;SCIKITLEARN'', [''SCIKITLEARN'']),
    (''PYTHON;SCIPY'', [''SCIPY'']),
    (''STATISTICS'', [''STATISTICAL ANALYSIS'']),
    (''SWIFT'', [''SWIFT 5'', ''SWIFT SECURITY PROGRAMME'']),
    (''VIRTUAL MACHINES'', [''VIRTUAL MACHINES'']),
    (''SECURITY;VULNERABILITY ASSESSMENT'', [''VULNERABILITY ASSESSMENT'']),
    (''SECURITY;VULNERABILITY MANAGEMENT'', [''VULNERABILITY MANAGEMENT'']),
    (''VUE JS'', [''VUE'']),
    (''WEBPACK'', [''WEBPACK OR SIMILAR TOOLS'']),
    (''WEBSHEPERE'', [''WEBSHEPERE 7'']),
    (''PIG;SPARK'', [''PIG AND SPARK'']),
    (''ANALYSIS'', [''ANALYSE'', ''ANALYSING'']),
    (''BOOTSTRAP'', [''BOOTSRAP'', ''BOOTRSTRAPS'', ''BOOTRSTRAPS'', ''BOOSTRAPCSS'', ''BOOTSTR'', ''BOOTSTR'', ''BOOST'']),
    (''CASSANDRA'', [''CASANDRA'']),
    (''DATABASE'', [''DBMS'', ''DBASE'', ''DBA'']),
    (''MICROSOFT'', [''MICOROSOFT'', ''MICORSOFT'', ''MICORSOFT EXCEL''])]"

definition replacement_dict :: "(string \<times> string) list" where
  "replacement_dict = [
    (''2G NET'', ''2G NETWORKS''),
    (''3G NET'', ''3G NETWORKS''),
    (''4G NET'', ''4G NETWORKS''),
    (''5G NET'', ''5G NETWORKS''),
    (''6G NET'', ''6G NETWORKS''),
    (''3D STUDIO'', ''3D STUDIO''),
    (''ACCEPTANCE TEST'', ''ACCEPTANCE TEST''),
    (''ACTIONSCR'', ''ACTIONSCRIPT''),
    (''ACTIVE DI'', ''ACTIVE DIRECTORY''),
    (''ACTIVE S'', ''ACTIVE SERVER''),
    (''ACTIVE TEMPLATE'', ''ACTIVE TEMPLATE''),
    (''ACTIVEMATRI'', ''ACTIVEMATRIX ''),
    (''ACTIVITI'', ''ACTIVITI''),
    (''AD HOC'', ''ADHOC ANALYSIS''),
    (''ADHOC'', ''ADHOC ANALYSIS''),
    (''AD '', ''ADVERTISEMENT''),
    (''ADA '', ''ADA''),
    (''ADABAS '', ''ADABAS''),
    (''ADOBE '', ''ADOBE''),
    (''AGILE '', ''AGILE''),
    (''AJAX '', ''AJAX''),
    (''AKKA '', ''AKKA''),
    (''ALGO'', ''ALGORITHMS''),
    (''ALL IT'', ''IT''),
    (''ALTOVA '', ''ALTOVA''),
    (''AMAZO'', ''AWS''),
    (''ANDRO'', ''ANDROID''),
    (''ANGULA'', ''ANGULAR JS''),
    (''APACHE HADOOP'', ''HADOOP''),
    (''APACHE HBASE'', ''HBASE''),
    (''APACHE HI'', ''HIVE''),
    (''APACHE K'', ''KAFKA''),
    (''APACHE M'', ''MAHOUT''),
    (''APACHE SP'', ''SPARK''),
    (''APACHE SU'', ''APACHE SUBVERSION''),
    (''APACHE WE'', ''APACHE WEB SERVER''),
    (''API '', ''API''),
    (''APOLLO '', ''APOLLO''),
    (''APPLE'', ''APPLE''),
    (''ARTIFIC'', ''ARTIFICIAL INTELLIGENCE''),
    (''ASCENTIAL'', ''ASCENTIAL DATASTAGE''),
    (''ASPEN '', ''ASPEN''),
    (''ASSET '', ''ASSET MANAGEMENT''),
    (''ASYNCHR'', ''ASYNCHRONOUS TRANSFER MODE''),
    (''ATLASSIAN'', ''ATLASSIAN''),
    (''AUTODESK'', ''AUTODESK''),
    (''AWS '', ''AWS''),
    (''AZURE '', ''AZURE''),
    (''BACK-END'', ''BACK END''),
    (''BACKBONE NETWORKS'', ''BACKBONE NETWORKS''),
    (''BALSAMIC'', ''BALSAMIQ''),
    (''BASE SAS'', ''SAS''),
    (''BEX '', ''BEX''),
    (''BIG D'', ''BIG DATA''),
    (''BLOCKCHA'', ''BLOCKCHAIN''),
    (''BLOOMBE'', ''BLOOMBERG''),
    (''BLUETOO'', ''BLUETOOTH''),
    (''BOOTSTRAP'', ''BOOTSTRAP''),
    (''CASCADING STYLE'', ''CSS''),
    (''ARCHITEC'', ''ARCHITECTURE''),
    (''ARDUI'', ''ARDUINO''),
    (''ARM '', ''ARM''),
    (''ART '', ''ART''),
    (''ASAP '', ''ASAP''),
    (''ASP '', ''ASP''),
    (''BASH '', ''BASH''),
    (''BEHAVIOUR'', ''BEHAVIOUR ANALYSIS''),
    (''BILLIN'', ''BILLING SYSTEMS''),
    (''BITBUC'', ''BITBUCKET''),
    (''BLACKBERRY'', ''BLACKBERRY''),
    (''BMC '', ''BMC''),
    (''BOOSTRAP'', ''BOOTSTRAP''),
    (''BOURNE'', ''BOURNE''),
    (''BUSINESS O'', ''BUSINESS OBJECT''),
    (''BUSINESSOB'', ''BUSINESS OBJECT''),
    (''BUSINESS S'', ''BUSINESS SUPPORT''),
    (''C '', ''C''),
    (''C+'', ''C++''),
    (''CAM '', ''CAM''),
    (''CASCA'', ''CSS''),
    (''CCS '', ''CCS''),
    (''CASSANDRA'', ''CASSANDRA''),
    (''CD '', ''CD''),
    (''CELLULAR '', ''CELLULAR''),
    (''CENTOS '', ''CENTOS''),
    (''CGI '', ''CGI''),
    (''CISCO '', ''CISCO''),
    (''CITRIX '', ''CITRIX''),
    (''CLOUD '', ''CLOUD''),
    (''CLOUDE'', ''CLOUDERA''),
    (''CLUSTER '', ''DISTRIBUTED COMPUTING''),
    (''CLUSTERS'', ''DISTRIBUTED COMPUTING''),
    (''CMMI'', ''CMMI''),
    (''CMS '', ''CMS''),
    (''COBOL'', ''COBOL''),
    (''COCOA'', ''COCOA''),
    (''CODEIG'', ''CODEIGNITER''),
    (''COGNOS'', ''COGNOS''),
    (''COMMUNICAT'', ''COMMUNICATION''),
    (''CONSUL'', ''CONSULTANCY''),
    (''CONTENT M'', ''CONTENT MANAGEMENT''),
    (''CONTINUOUS D'', ''CD''),
    (''CONTINUOUS I'', ''CI''),
    (''CRM '', ''CRM''),
    (''CRUD '', ''CRUD''),
    (''DATA I'', ''DATA INTEGRATION''),
    (''DATA MIN'', ''DATA MINING''),
    (''DATA MO'', ''DATA MODELLING''),
    (''DATA M'', ''DATA MANAGEMENT''),
    (''DATA PRO'', ''DATA PROCESSING''),
    (''DATA PRE-PROCESSING'', ''DATA PROCESSING''),
    (''DATA QUALITY'', ''DATA MANAGEMENT''),
    (''DATA STORAG'', ''DATA STORAGE''),
    (''DATA TRANS'', ''DATA TRANSFORMATION''),
    (''DATA VI'', ''DATA VISUALIZATION''),
    (''DATA WA'', ''DATA WAREHOUSING''),
    (''DATABASE '', ''DATABASE''),
    (''DEB'', ''DEBIAN''),
    (''DEEP'', ''DEEP LEARNING''),
    (''DEL '', ''DEL''),
    (''DEPLOYMENT '', ''DEPLOYMENT''),
    (''DISTR'', ''DISTRIBUTED COMPUTING''),
    (''DJANGO'', ''DJANGO''),
    (''DOCKER'', ''DOCKER''),
    (''DOJO'', ''DOJO''),
    (''DOMAIN NA'', ''DNS''),
    (''DREAMWEAVER'', ''DREAMWEAVER''),
    (''DRUPAL'', ''DRUPAL''),
    (''E-COMMERCE'', ''E-COMMERCE''),
    (''ECOMME'', ''E-COMMERCE''),
    (''ECLIPSE'', ''ECLIPSE''),
    (''ELASTICSEAR'', ''ELASTICHSEARCH''),
    (''EMBED'', ''EMBEDDED''),
    (''ERP '', ''ERP''),
    (''ETL '', ''ETL''),
    (''EXTREME PR'', ''EXTREME PROGRAMMING''),
    (''FIREWA'', ''FIREWALLS''),
    (''FLASH '', ''FLASH''),
    (''FRONT E'', ''FRONT END''),
    (''FRONTE'', ''FRONT END''),
    (''FTTX '', ''FTTX''),
    (''FULL ST'', ''SW DEVELOPMENT''),
    (''FUNCTIONAL D'', ''FUNCTIONAL DESIGN''),
    (''FUNCTIONAL PRO'', ''FUNCTIONAL PROGRAMMING''),
    (''FUNCTIONAL RE'', ''FUNCTIONAL REQUIREMENTS''),
    (''GAME '', ''GAME''),
    (''GEOGRAPHIC I'', ''GEOGRAPHIC INFORMATION SYSTEMS''),
    (''GOOGLE CL'', ''CLOUD''),
    (''GRAPHIC'', ''GRAPHICS''),
    (''GUI '', ''GUI''),
    (''HADOOP '', ''HADOOP''),
    (''HANA '', ''HANA''),
    (''HELPDESK'', ''HELPDESK''),
    (''HIBE'', ''HIBERNATE''),
    (''HP '', ''HP''),
    (''HTM'', ''HTML''),
    (''HTTP'', ''HTTP''),
    (''HYPERION'', ''HYPERION''),
    (''IBM CLOUD'', ''CLOUD''),
    (''IBM COGNO'', ''COGNOS''),
    (''IBM HA'', ''IBM HARDWARE''),
    (''IBM WEB'', ''IBM WEBSPHERE''),
    (''ICT '', ''ICT''),
    (''IDEE'', ''IDEE''),
    (''INFORMATICA'', ''IT''),
    (''INFORMATION SEC'', ''SECURITY''),
    (''INFORMATION TEC'', ''IT''),
    (''INTEL '', ''INTEL''),
    (''INTELLIJ'', ''INTELLIJ''),
    (''INTRUSION'', ''INTRUSION DETECTION''),
    (''IONIC '', ''IONIC''),
    (''IOT '', ''IOT''),
    (''IP '', ''IP''),
    (''IPHONE'', ''IPHONE''),
    (''ISO 27'', ''SECURITY''),
    (''ISO 900X'', ''ISO 900X''),
    (''IT ARCHITECTURE'', ''IT ARCHITECTURE''),
    (''IT INFRASTRUCTURE'', ''INFRASTRUCTURE''),
    (''IT PROJECT'', ''PROJECT MANAGEMENT''),
    (''ITIL'', ''ITIL''),
    (''JAK'', ''JAKARTA TOMCAT''),
    (''JASPER'', ''JASPER''),
    (''JAVA '', ''JAVA''),
    (''JAVASC'', ''JAVASCRIPT''),
    (''JAVASE'', ''JAVA SERVER''),
    (''JBOS'', ''JBOSS''),
    (''JDE'', ''JDE''),
    (''JIRA '', ''JIRA''),
    (''JOOM'', ''JOOMLA''),
    (''JQU'', ''JQUERY''),
    (''JSC'', ''JAVASCRIPT''),
    (''JSO'', ''JSON''),
    (''JULIA'', ''JULIA''),
    (''JUPITER'', ''JUPYTER''),
    (''JUPYTER'', ''JUPYTER''),
    (''KAFK'', ''KAFKA''),
    (''KERA'', ''KERAS''),
    (''KNOC'', ''KNOCKOUT JS''),
    (''KORN '', ''KORN''),
    (''LINU'', ''LINUX''),
    (''LOTUS '', ''LOTUS''),
    (''LSI '', ''LSI''),
    (''LUA'', ''LUA''),
    (''MACHINE L'', ''MACHINE LEARNING''),
    (''MACROMEDIA'', ''MACROMEDIA''),
    (''MARKET'', ''MARKETING ''),
    (''MASTER DATA'', ''DATA''),
    (''MATLA'', ''MATLAB''),
    (''MCAFEE'', ''MCAFEE''),
    (''MERCURY '', ''MERCURY''),
    (''MICROSOFT AS'', ''ASP''),
    (''MICROSOFT C'', ''C#''),
    (''MICROSOFT DY'', ''MICROSOFT DYNAMICS''),
    (''MICROSOFT E'', ''MS EXCEL''),
    (''MS EXCEL'', ''MS EXCEL''),
    (''MICROSOFT OF'', ''MS OFFICE''),
    (''MICROSOFT OU'', ''MS OUTLOOK''),
    (''MICROSOFT PO'', ''MS POWERPOINT''),
    (''MICROSOFT SQ'', ''SQL''),
    (''MICROSOFT TRA'', ''SQL''),
    (''MICROSOFT TEAM'', ''MS TEAMS''),
    (''MICROSOFT VISI'', ''VISIO''),
    (''MICROSOFT VISUAL C'', ''VISUAL C''),
    (''MICROSOFT VISUAL S'', ''VISUAL STUDIO''),
    (''MICROSOFT WI'', ''WINDOWS''),
    (''MICROSOFT WO'', ''MS WORD''),
    (''MOBILE '', ''MOBILE''),
    (''MVC '', ''MVC''),
    (''MYSQ'', ''SQL''),
    (''NATURAL LA'', ''NLP''),
    (''NETBEAN'', ''NETBEANS''),
    (''NEURAL NE'', ''NEURAL NET''),
    (''NODE'', ''NODE JS''),
    (''OBJECT ORI'', ''OOP''),
    (''OPERATI'', ''OS''),
    (''ORACLE '', ''ORACLE''),
    (''PHP '', ''PHP''),
    (''POSTGR'', ''SQL''),
    (''PROJECT MANAGEMENT'', ''PROJECT MANAGEMENT''),
    (''PYTH'', ''PYTHON''),
    (''PYTOR'', ''PYTORCH''),
    (''QLIK'', ''QLIK''),
    (''R '', ''R''),
    (''REACT'', ''REACT JS''),
    (''RECOVERY'', ''RECOVERY''),
    (''REGRESSION'', ''REGRESSION''),
    (''REGULAR EXP'', ''REGULAR EXPRESSION''),
    (''RELATIONAL'', ''SQL''),
    (''REST '', ''API''),
    (''RUBY'', ''RUBY''),
    (''SAGE '', ''SAGE''),
    (''SALESFORCE'', ''SALESFORCE''),
    (''SALES '', ''SALES''),
    (''SAP '', ''SAP''),
    (''SAS '', ''SAS''),
    (''SCALA '', ''SCALA''),
    (''SCIKI'', ''SCIKITLEARN''),
    (''SCO '', ''SCO''),
    (''SCRUM'', ''SCRUM''),
    (''SEAGATE '', ''SEAGATE''),
    (''SEARCH ENG'', ''SEO''),
    (''SECURITY'', ''SECURITY''),
    (''SERVER '', ''SERVER ''),
    (''SHELL '', ''SHELL''),
    (''SIEBEL '', ''SIEBEL''),
    (''SIEMEN'', ''SIEMENS''),
    (''SNOWFLAKE'', ''SNOWFLAKE''),
    (''SOA '', ''SOA''),
    (''SOAP '', ''SOAP''),
    (''SOCIAL MED'', ''SOCIAL MEDIA''),
    (''SOFTWARE '', ''SW DEVELOPMENT''),
    (''SPRING '', ''SPRING''),
    (''SQL '', ''SQL''),
    (''STRUTS'', ''STRUTS''),
    (''SUBLIM'', ''SUBLIME TEXT''),
    (''TABLE'', ''TABLEAU''),
    (''TENSORF'', ''TENSORFLOW''),
    (''TERADA'', ''TERADATA''),
    (''TEST '', ''TEST''),
    (''TIBCO '', ''TIBCO''),
    (''UBUNT'', ''UBUNTU''),
    (''UI '', ''UI''),
    (''USER I'', ''UI''),
    (''UNIT T'', ''TEST''),
    (''UNIX'', ''UNIX''),
    (''VISUAL BASIC'', ''VISUAL BASIC''),
    (''VMWARE'', ''VMWARE''),
    (''VULNERABILITY'', ''VULNERABILITY MANAGEMENT''),
    (''WAN '', ''WAN''),
    (''WEB API'', ''API''),
    (''WEB '', ''WEB''),
    (''WEBSPHERE'', ''WEBSPHERE''),
    (''WINDOWS AZ'', ''AZURE''),
    (''WIN '', ''WINDOWS''),
    (''WINDOW'', ''WINDOWS''),
    (''ZEND'', ''ZEND''),
    (''PERSONAL HOME PAGE'', ''PHP'')]"

section \<open>Field pipelines\<close>

text \<open>
  The optional argument \<^verbatim>\<open>sep\<close>: \<^verbatim>\<open>if not sep: sep = ...\<close> puts the default class of the
  pipeline in the place of \<open>None\<close> and of the empty string.
\<close>

fun sep_or_default :: "char list option \<Rightarrow> char list \<Rightarrow> char list" where
  "sep_or_default None dflt = dflt"
| "sep_or_default (Some p) dflt = (if p = [] then dflt else p)"

definition normalize_city_series :: "(string list \<Rightarrow> string list) \<Rightarrow> char list option \<Rightarrow> cell series \<Rightarrow> error + token series" where
  "normalize_city_series set_iter sep col =
     (let sep = (sep_or_default sep ''-,;(/['');
          locations = replace_empty_nan (replace_regex_empty '')]?''
            (str_upper (str_strip (explode (str_split sep (str_accessor col))))));
          locations = replace_series locations city_replacement_mapping
      in squeeze_series set_iter locations)"

definition normalize_country_series :: "(string list \<Rightarrow> string list) \<Rightarrow> char list option \<Rightarrow> cell series \<Rightarrow> error + token series" where
  "normalize_country_series set_iter sep col =
     (let sep = (sep_or_default sep ''-,;(/['');
          locations = replace_empty_nan
            (str_upper (str_strip (explode (str_split sep (str_accessor col)))));
          locations = replace_series locations country_replacement_mapping
      in squeeze_series set_iter locations)"

definition normalize_str_separated_series :: "(string list \<Rightarrow> string list) \<Rightarrow> char list option \<Rightarrow> cell series \<Rightarrow> error + token series" where
  "normalize_str_separated_series set_iter sep s =
     (let sep = (sep_or_default sep '',;'');
          s = str_upper (str_strip (explode (str_split sep (str_accessor s))))
      in squeeze_series set_iter s)"

definition normalize_skills_series :: "(string list \<Rightarrow> string list) \<Rightarrow> char list option \<Rightarrow> cell series \<Rightarrow> error + token series" where
  "normalize_skills_series set_iter sep col =
     (let sep = (sep_or_default sep '';,(/&'');
          skills = replace_empty_nan (str_upper (str_strip
            (replace_regex_empty [CHR 0x27] (replace_regex_empty [CHR 0x22]
              (replace_regex_empty '')]?.'' (explode (str_split sep (str_accessor col))))))));
          skills = replace_series skills skills_replacement_mapping;
          skills = str_strip (explode (str_split '';'' skills))
      in squeeze_series set_iter skills)"

text \<open>
  The extended skill pipeline: the base pipeline, then its joined values split on \<open>;\<close> again and
  every prefix rule applied to the whole series, one rule after the other, then squeezed.
\<close>

definition normalize_skills_series_extra :: "(string list \<Rightarrow> string list) \<Rightarrow> char list option \<Rightarrow> cell series \<Rightarrow> error + token series" where
  "normalize_skills_series_extra set_iter sep s =
     (case normalize_skills_series set_iter sep s of
        Inl e \<Rightarrow> Inl e
      | Inr s \<Rightarrow>
          squeeze_series set_iter
            (foldl (\<lambda>s (k, v). map (apsnd (\<lambda>e. replace_if_startswith e k v)) s)
               (explode (str_split '';'' s)) replacement_dict))"

section \<open>Per-row view of the pipelines\<close>

text \<open>
  The definitions of this section are not in the source. They say what a pipeline computes for
  one cell, and the lemmas below prove that the pipelines, which work on whole series and
  regroup by label, compute exactly that for every row of a column.
\<close>

text \<open>The rows of a column, each a list of values, laid out as a series labelled from \<open>n\<close>.\<close>

definition tag_rows :: "nat \<Rightarrow> 'a list list \<Rightarrow> 'a series" where
  "tag_rows n rows = concat (map (\<lambda>(i, r). map (Pair i) r) (enumerate n rows))"

definition replace_token :: "token \<Rightarrow> (string \<times> string list) list \<Rightarrow> token" where
  "replace_token t replacement_mapping =
     foldl (\<lambda>t (replace_by, to_replace). replace_value to_replace replace_by t) t replacement_mapping"

definition startswith_token :: "token \<Rightarrow> (string \<times> string) list \<Rightarrow> token" where
  "startswith_token e rules = foldl (\<lambda>e (k, v). replace_if_startswith e k v) e rules"

definition split_explode :: "char list \<Rightarrow> token \<Rightarrow> token list" where
  "split_explode pat t = explode_value (map_option (re_split pat) t)"

definition city_tokens :: "char list option \<Rightarrow> cell \<Rightarrow> token list" where
  "city_tokens sep c =
     map (\<lambda>t. replace_token (empty_nan (map_option (re_sub_empty '')]?'')
            (map_option upper (map_option strip t)))) city_replacement_mapping)
       (split_explode (sep_or_default sep ''-,;(/['') (str_of c))"

definition country_tokens :: "char list option \<Rightarrow> cell \<Rightarrow> token list" where
  "country_tokens sep c =
     map (\<lambda>t. replace_token (empty_nan (map_option upper (map_option strip t)))
            country_replacement_mapping)
       (split_explode (sep_or_default sep ''-,;(/['') (str_of c))"

definition str_separated_tokens :: "char list option \<Rightarrow> cell \<Rightarrow> token list" where
  "str_separated_tokens sep c =
     map (\<lambda>t. map_option upper (map_option strip t))
       (split_explode (sep_or_default sep '',;'') (str_of c))"

definition skills_clean :: "token \<Rightarrow> token" where
  "skills_clean t = empty_nan (map_option upper (map_option strip
     (map_option (re_sub_empty [CHR 0x27]) (map_option (re_sub_empty [CHR 0x22])
       (map_option (re_sub_empty '')]?.'') t)))))"

definition skills_tokens :: "char list option \<Rightarrow> cell \<Rightarrow> token list" where
  "skills_tokens sep c =
     concat (map (\<lambda>t. map (map_option strip)
         (split_explode '';'' (replace_token (skills_clean t) skills_replacement_mapping)))
       (split_explode (sep_or_default sep '';,(/&'') (str_of c)))"

definition skills_extra_tokens :: "(string list \<Rightarrow> string list) \<Rightarrow> char list option \<Rightarrow> cell \<Rightarrow> token list" where
  "skills_extra_tokens set_iter sep c =
     map (\<lambda>e. startswith_token e replacement_dict)
       (split_explode '';'' (str_join set_iter (skills_tokens sep c)))"

text \<open>A token without the separator \<open>;\<close> of the joined values.\<close>

fun semi_free :: "token \<Rightarrow> bool" where
  "semi_free None = True"
| "semi_free (Some y) = (CHR '';'' \<notin> set y)"

section \<open>Grouping by label\<close>

lemma tag_rows_Nil [simp]: "tag_rows n [] = []"
  by (simp add: tag_rows_def)

lemma tag_rows_Cons [simp]: "tag_rows n (r # rows) = map (Pair n) r @ tag_rows (Suc n) rows"
  by (simp add: tag_rows_def)

lemma enumerate_tag_rows: "enumerate n xs = tag_rows n (map (\<lambda>x. [x]) xs)"
  by (induction xs arbitrary: n) simp_all

lemma map_apsnd_tag_rows: "map (apsnd f) (tag_rows n rows) = tag_rows n (map (map f) rows)"
  by (induction rows arbitrary: n) simp_all

lemma fst_tag_rows: "fst ` set (tag_rows n rows) \<subseteq> {n..<n + length rows}"
proof (induction rows arbitrary: n)
  case Nil
  then show ?case by simp
next
  case (Cons r rows)
  have "fst ` set (tag_rows (Suc n) rows) \<subseteq> {Suc n..<Suc n + length rows}"
    by (rule Cons.IH)
  then show ?case by (auto simp: image_Un)
qed

lemma remdups_replicate_append:
  "0 < m \<Longrightarrow> x \<notin> set ys \<Longrightarrow> remdups (replicate m x @ ys) = x # remdups ys"
proof (induction m)
  case 0
  then show ?case by simp
next
  case (Suc m)
  then show ?case by (cases m) simp_all
qed

lemma groupby_index_tag_rows:
  "\<forall>r \<in> set rows. r \<noteq> [] \<Longrightarrow> groupby_index (tag_rows n rows) = enumerate n rows"
proof (induction rows arbitrary: n)
  case Nil
  then show ?case by (simp add: groupby_index_def)
next
  case (Cons r rows)
  let ?rest = "tag_rows (Suc n) rows"
  have lab: "fst ` set ?rest \<subseteq> {Suc n..<Suc n + length rows}"
    by (rule fst_tag_rows)
  have nin: "n \<notin> set (map fst ?rest)"
    using lab by auto
  have fsts: "map fst (tag_rows n (r # rows)) = replicate (length r) n @ map fst ?rest"
    by (simp add: comp_def map_replicate_const)
  have rne: "0 < length r" using Cons.prems by simp
  have keys: "sort (remdups (map fst (tag_rows n (r # rows)))) = n # sort (remdups (map fst ?rest))"
  proof -
    have "remdups (map fst (tag_rows n (r # rows))) = n # remdups (map fst ?rest)"
      unfolding fsts using rne nin by (rule remdups_replicate_append)
    moreover have "\<forall>k \<in> set (sort (remdups (map fst ?rest))). n \<le> k"
      using lab by auto
    ultimately show ?thesis by (simp add: insort_is_Cons)
  qed
  have here: "map snd (filter (\<lambda>p. fst p = n) (tag_rows n (r # rows))) = r"
  proof -
    have "filter (\<lambda>p. fst p = n) ?rest = []"
      using nin by (auto simp: filter_empty_conv)
    then show ?thesis by (simp add: comp_def)
  qed
  have later: "map (\<lambda>k. (k, map snd (filter (\<lambda>p. fst p = k) (tag_rows n (r # rows)))))
        (sort (remdups (map fst ?rest))) = groupby_index ?rest"
    unfolding groupby_index_def
  proof (rule map_cong[OF refl])
    fix k assume "k \<in> set (sort (remdups (map fst ?rest)))"
    then have "k \<noteq> n" using nin by auto
    then have "filter (\<lambda>p. fst p = k) (map (Pair n) r) = []"
      by (auto simp: filter_empty_conv)
    then show "(k, map snd (filter (\<lambda>p. fst p = k) (tag_rows n (r # rows)))) =
        (k, map snd (filter (\<lambda>p. fst p = k) ?rest))"
      by simp
  qed
  have ih: "groupby_index ?rest = enumerate (Suc n) rows"
    using Cons.prems by (intro Cons.IH) simp
  have "groupby_index (tag_rows n (r # rows)) =
      (n, map snd (filter (\<lambda>p. fst p = n) (tag_rows n (r # rows)))) #
      map (\<lambda>k. (k, map snd (filter (\<lambda>p. fst p = k) (tag_rows n (r # rows)))))
        (sort (remdups (map fst ?rest)))"
    unfolding groupby_index_def keys by simp
  also have "\<dots> = (n, r) # enumerate (Suc n) rows"
    unfolding here later ih by (rule refl)
  finally show ?case by simp
qed

lemma map_apsnd_enumerate: "map (apsnd f) (enumerate n xs) = enumerate n (map f xs)"
  by (induction xs arbitrary: n) simp_all

lemma squeeze_series_tag_rows:
  assumes "\<forall>r \<in> set rows. r \<noteq> []"
  shows "squeeze_series set_iter (tag_rows 0 rows) =
    (if length rows = 1 then Inl AttributeError
     else Inr (enumerate 0 (map (str_join set_iter) rows)))"
  using assms
  by (simp add: squeeze_series_def groupby_index_tag_rows map_apsnd_enumerate)

section \<open>Every pipeline works row by row\<close>

lemma replace_series_tokens:
  "replace_series s m = map (apsnd (\<lambda>t. replace_token t m)) s"
proof (induction m arbitrary: s)
  case Nil
  then show ?case by (simp add: replace_series_def replace_token_def apsnd_def map_prod_def case_prod_unfold)
next
  case (Cons e m)
  obtain k vs where e: "e = (k, vs)" by (cases e)
  have "replace_series s (e # m) = replace_series (replace_list vs k s) m"
    by (simp add: replace_series_def e)
  also have "\<dots> = map (apsnd (\<lambda>t. replace_token t m)) (replace_list vs k s)"
    by (rule Cons.IH)
  also have "\<dots> = map (apsnd (\<lambda>t. replace_token t (e # m))) s"
    by (simp add: replace_list_def replace_token_def e comp_def apsnd_def map_prod_def case_prod_unfold)
  finally show ?case .
qed

lemma startswith_series_tokens:
  "foldl (\<lambda>s (k, v). map (apsnd (\<lambda>e. replace_if_startswith e k v)) s) s d =
   map (apsnd (\<lambda>e. startswith_token e d)) s"
proof (induction d arbitrary: s)
  case Nil
  then show ?case by (simp add: startswith_token_def apsnd_def map_prod_def case_prod_unfold)
next
  case (Cons kv d)
  obtain k v where e: "kv = (k, v)" by (cases kv)
  let ?s = "map (apsnd (\<lambda>e. replace_if_startswith e k v)) s"
  have "foldl (\<lambda>s (k, v). map (apsnd (\<lambda>e. replace_if_startswith e k v)) s) s (kv # d) =
      foldl (\<lambda>s (k, v). map (apsnd (\<lambda>e. replace_if_startswith e k v)) s) ?s d"
    by (simp add: e)
  also have "\<dots> = map (apsnd (\<lambda>e. startswith_token e d)) ?s"
    by (rule Cons.IH)
  also have "\<dots> = map (apsnd (\<lambda>e. startswith_token e (kv # d))) s"
    by (simp add: startswith_token_def e comp_def apsnd_def map_prod_def case_prod_unfold)
  finally show ?case .
qed

lemma explode_value_not_Nil [simp]: "explode_value v \<noteq> []"
  by (cases v rule: explode_value.cases) simp_all

lemma split_explode_not_Nil [simp]: "split_explode pat t \<noteq> []"
  by (simp add: split_explode_def)

lemma explode_str_split_tag_rows:
  "explode (str_split pat (tag_rows n rows)) =
   tag_rows n (map (\<lambda>r. concat (map (split_explode pat) r)) rows)"
proof (induction rows arbitrary: n)
  case Nil
  then show ?case by (simp add: explode_def str_split_def)
next
  case (Cons r rows)
  have one: "explode (str_split pat (map (Pair n) r)) = map (Pair n) (concat (map (split_explode pat) r))"
    by (induction r) (simp_all add: explode_def str_split_def split_explode_def)
  have app: "explode (str_split pat (a @ b)) = explode (str_split pat a) @ explode (str_split pat b)" for a b
    by (simp add: explode_def str_split_def)
  show ?case by (simp add: app one Cons.IH)
qed

lemma explode_str_split_range_index:
  "explode (str_split pat (enumerate n xs)) = tag_rows n (map (split_explode pat) xs)"
  by (simp add: enumerate_tag_rows explode_str_split_tag_rows comp_def)

lemma str_accessor_range_index: "str_accessor (enumerate n col) = enumerate n (map str_of col)"
  by (simp add: str_accessor_def map_apsnd_enumerate)

lemmas series_ops = str_strip_def str_upper_def replace_regex_empty_def replace_empty_nan_def
  map_apsnd_tag_rows replace_series_tokens

lemma normalize_city_series_rows:
  "normalize_city_series set_iter sep (range_index col) =
     (if length col = 1 then Inl AttributeError
      else Inr (range_index (map (\<lambda>c. str_join set_iter (city_tokens sep c)) col)))"
proof -
  have "squeeze_series set_iter (tag_rows 0 (map (city_tokens sep) col)) =
     (if length col = 1 then Inl AttributeError
      else Inr (range_index (map (\<lambda>c. str_join set_iter (city_tokens sep c)) col)))"
    by (subst squeeze_series_tag_rows) (simp_all add: city_tokens_def range_index_def comp_def)
  then show ?thesis
    by (simp add: normalize_city_series_def range_index_def str_accessor_range_index
        explode_str_split_range_index series_ops city_tokens_def[abs_def] comp_def)
qed

lemma normalize_country_series_rows:
  "normalize_country_series set_iter sep (range_index col) =
     (if length col = 1 then Inl AttributeError
      else Inr (range_index (map (\<lambda>c. str_join set_iter (country_tokens sep c)) col)))"
proof -
  have "squeeze_series set_iter (tag_rows 0 (map (country_tokens sep) col)) =
     (if length col = 1 then Inl AttributeError
      else Inr (range_index (map (\<lambda>c. str_join set_iter (country_tokens sep c)) col)))"
    by (subst squeeze_series_tag_rows) (simp_all add: country_tokens_def range_index_def comp_def)
  then show ?thesis
    by (simp add: normalize_country_series_def range_index_def str_accessor_range_index
        explode_str_split_range_index series_ops country_tokens_def[abs_def] comp_def)
qed

lemma normalize_str_separated_series_rows:
  "normalize_str_separated_series set_iter sep (range_index col) =
     (if length col = 1 then Inl AttributeError
      else Inr (range_index (map (\<lambda>c. str_join set_iter (str_separated_tokens sep c)) col)))"
proof -
  have "squeeze_series set_iter (tag_rows 0 (map (str_separated_tokens sep) col)) =
     (if length col = 1 then Inl AttributeError
      else Inr (range_index (map (\<lambda>c. str_join set_iter (str_separated_tokens sep c)) col)))"
    by (subst squeeze_series_tag_rows) (simp_all add: str_separated_tokens_def range_index_def comp_def)
  then show ?thesis
    by (simp add: normalize_str_separated_series_def range_index_def str_accessor_range_index
        explode_str_split_range_index series_ops str_separated_tokens_def[abs_def] comp_def)
qed

lemma skills_tokens_not_Nil [simp]: "skills_tokens sep c \<noteq> []"
proof -
  obtain t ts where "split_explode (sep_or_default sep '';,(/&'') (str_of c) = t # ts"
    using split_explode_not_Nil by (meson neq_Nil_conv)
  then show ?thesis by (simp add: skills_tokens_def)
qed

lemma normalize_skills_series_rows:
  "normalize_skills_series set_iter sep (range_index col) =
     (if length col = 1 then Inl AttributeError
      else Inr (range_index (map (\<lambda>c. str_join set_iter (skills_tokens sep c)) col)))"
proof -
  have "squeeze_series set_iter (tag_rows 0 (map (skills_tokens sep) col)) =
     (if length col = 1 then Inl AttributeError
      else Inr (range_index (map (\<lambda>c. str_join set_iter (skills_tokens sep c)) col)))"
    by (subst squeeze_series_tag_rows) (simp_all add: range_index_def comp_def)
  then show ?thesis
    by (simp add: normalize_skills_series_def range_index_def str_accessor_range_index
        explode_str_split_range_index explode_str_split_tag_rows series_ops
        skills_tokens_def[abs_def] skills_clean_def[abs_def] comp_def map_concat)
qed

lemma normalize_skills_series_extra_rows:
  "normalize_skills_series_extra set_iter sep (range_index col) =
     (if length col = 1 then Inl AttributeError
      else Inr (range_index (map (\<lambda>c. str_join set_iter (skills_extra_tokens set_iter sep c)) col)))"
proof (cases "length col = 1")
  case True
  then show ?thesis
    by (simp add: normalize_skills_series_extra_def normalize_skills_series_rows)
next
  case False
  let ?base = "map (\<lambda>c. str_join set_iter (skills_tokens sep c)) col"
  have "squeeze_series set_iter (tag_rows 0 (map (skills_extra_tokens set_iter sep) col)) =
      Inr (range_index (map (\<lambda>c. str_join set_iter (skills_extra_tokens set_iter sep c)) col))"
    using False
    by (subst squeeze_series_tag_rows) (simp_all add: range_index_def comp_def skills_extra_tokens_def)
  moreover have "foldl (\<lambda>s (k, v). map (apsnd (\<lambda>e. replace_if_startswith e k v)) s)
       (explode (str_split '';'' (range_index ?base))) replacement_dict =
     tag_rows 0 (map (skills_extra_tokens set_iter sep) col)"
    by (simp add: startswith_series_tokens range_index_def explode_str_split_range_index
        map_apsnd_tag_rows skills_extra_tokens_def[abs_def] comp_def)
  ultimately show ?thesis
    using False
    by (simp add: normalize_skills_series_extra_def normalize_skills_series_rows)
qed

lemma replace_token_Nil [simp]: "replace_token t [] = t"
  by (simp add: replace_token_def)

lemma replace_token_Cons [simp]:
  "replace_token t ((k, vs) # m) = replace_token (replace_value vs k t) m"
  by (simp add: replace_token_def)

lemma replace_token_append: "replace_token t (a @ b) = replace_token (replace_token t a) b"
  by (simp add: replace_token_def)

lemma replace_token_None [simp]: "replace_token None m = None"
  by (induction m) auto

lemma startswith_token_Nil [simp]: "startswith_token e [] = e"
  by (simp add: startswith_token_def)

lemma startswith_token_Cons [simp]:
  "startswith_token e ((k, v) # d) = startswith_token (replace_if_startswith e k v) d"
  by (simp add: startswith_token_def)

lemma startswith_token_None [simp]: "startswith_token None d = None"
  by (induction d) auto

lemma str_join_None [simp]: "str_join set_iter [None] = None"
  by (simp add: str_join_def)

lemma split_explode_None [simp]: "split_explode pat None = [None]"
  by (simp add: split_explode_def)

lemma range_index_length [simp]: "length (range_index xs) = length xs"
  by (simp add: range_index_def)

lemma range_index_nth: "i < length xs \<Longrightarrow> range_index xs ! i = (i, xs ! i)"
  by (simp add: range_index_def nth_enumerate_eq)


section \<open>Null propagation\<close>



section \<open>Columns of one row\<close>

text \<open>No step before \<^verbatim>\<open>squeeze_series\<close> adds or removes a label.\<close>

lemma labels_apsnd [simp]: "fst ` set (map (apsnd f) s) = fst ` set s"
  by (induction s) auto

lemma labels_explode [simp]: "fst ` set (explode s) = fst ` set s"
proof (induction s)
  case Nil
  then show ?case by (simp add: explode_def)
next
  case (Cons a s)
  obtain i v where a: "a = (i, v)" by (cases a)
  have "explode (a # s) = map (Pair i) (explode_value v) @ explode s"
    by (simp add: explode_def a)
  moreover have "fst ` set (map (Pair i) (explode_value v)) = {i}"
    by (cases "explode_value v") (auto simp: image_image)
  ultimately show ?case using Cons.IH by (simp add: a image_Un)
qed

lemma squeeze_series_one_label:
  assumes "card (fst ` set s) = 1"
  shows "squeeze_series set_iter s = Inl AttributeError"
proof -
  have "length (groupby_index s) = card (set (map fst s))"
    by (simp add: groupby_index_def length_remdups_card_conv)
  then show ?thesis using assms by (simp add: squeeze_series_def)
qed

lemmas label_ops = str_accessor_def str_split_def str_strip_def str_upper_def
  replace_regex_empty_def replace_empty_nan_def replace_series_tokens

text \<open>
  Claim C10. When the series handed to \<^verbatim>\<open>squeeze_series\<close> carries exactly one distinct label,
  the grouped frame has one row, \<^verbatim>\<open>squeeze()\<close> collapses it to a bare set and the call raises
  instead of returning a one-element series. So each of the five pipelines raises on every
  column whose labels are all the same, in particular on every column of one row.
\<close>

theorem one_label_raises:
  "(card (fst ` set s) = 1 \<longrightarrow> squeeze_series set_iter s = Inl AttributeError) \<and>
   (card (fst ` set col) = 1 \<longrightarrow>
      normalize_city_series set_iter sep col = Inl AttributeError \<and>
      normalize_country_series set_iter sep col = Inl AttributeError \<and>
      normalize_str_separated_series set_iter sep col = Inl AttributeError \<and>
      normalize_skills_series set_iter sep col = Inl AttributeError \<and>
      normalize_skills_series_extra set_iter sep col = Inl AttributeError)"
proof -
  have city: "normalize_city_series set_iter sep col = Inl AttributeError"
    if "card (fst ` set col) = 1"
    unfolding normalize_city_series_def Let_def
    by (rule squeeze_series_one_label) (simp add: label_ops image_image that)
  have country: "normalize_country_series set_iter sep col = Inl AttributeError"
    if "card (fst ` set col) = 1"
    unfolding normalize_country_series_def Let_def
    by (rule squeeze_series_one_label) (simp add: label_ops image_image that)
  have generic: "normalize_str_separated_series set_iter sep col = Inl AttributeError"
    if "card (fst ` set col) = 1"
    unfolding normalize_str_separated_series_def Let_def
    by (rule squeeze_series_one_label) (simp add: label_ops image_image that)
  have skills: "normalize_skills_series set_iter sep col = Inl AttributeError"
    if "card (fst ` set col) = 1"
    unfolding normalize_skills_series_def Let_def
    by (rule squeeze_series_one_label) (simp add: label_ops image_image that)
  have extra: "normalize_skills_series_extra set_iter sep col = Inl AttributeError"
    if "card (fst ` set col) = 1"
    by (simp add: normalize_skills_series_extra_def skills that)
  show ?thesis
    using city country generic skills extra squeeze_series_one_label by blast
qed

theorem one_label_raises_witness:
  "card (fst ` set [(0::nat, Some ''REST''), (0, Some ''API'')]) = 1 \<and>
   squeeze_series remdups [(0, Some ''REST''), (0, Some ''API'')] = Inl AttributeError \<and>
   card (fst ` set (range_index [Str ''REST''])) = 1 \<and>
   normalize_city_series remdups None (range_index [Str ''REST'']) = Inl AttributeError \<and>
   normalize_country_series remdups None (range_index [Str ''REST'']) = Inl AttributeError \<and>
   normalize_str_separated_series remdups None (range_index [Str ''REST'']) = Inl AttributeError \<and>
   normalize_skills_series remdups None (range_index [Str ''REST'']) = Inl AttributeError \<and>
   normalize_skills_series_extra remdups None (range_index [Str ''REST'']) = Inl AttributeError"
  using one_label_raises [of "[(0, Some ''REST''), (0, Some ''API'')]" remdups "range_index [Str ''REST'']" None]
  by (simp add: range_index_def)

section \<open>Exact-match rewriting\<close>

lemma replace_token_unmatched:
  "\<forall>e \<in> set m. x \<notin> set (snd e) \<Longrightarrow> replace_token (Some x) m = Some x"
  by (induction m) auto

lemma replace_token_range:
  "replace_token (Some x) m = Some x \<or> (\<exists>k \<in> fst ` set m. replace_token (Some x) m = Some k)"
proof (induction m arbitrary: x)
  case Nil
  then show ?case by simp
next
  case (Cons e m)
  obtain k vs where e: "e = (k, vs)" by (cases e)
  show ?case
  proof (cases "x \<in> set vs")
    case True
    then show ?thesis using Cons.IH [of k] by (auto simp: e)
  next
    case False
    then show ?thesis using Cons.IH [of x] by (auto simp: e)
  qed
qed

lemma replace_token_idem:
  assumes "list_all (\<lambda>k. replace_token (Some k) m = Some k) (map fst m)"
  shows "replace_token (replace_token t m) m = replace_token t m"
proof (cases t)
  case None
  then show ?thesis by simp
next
  case (Some x)
  from replace_token_range [of x m] show ?thesis
  proof
    assume "replace_token (Some x) m = Some x"
    then show ?thesis by (simp add: Some)
  next
    assume "\<exists>k \<in> fst ` set m. replace_token (Some x) m = Some k"
    then obtain k where "k \<in> fst ` set m" and r: "replace_token (Some x) m = Some k" by blast
    then have "replace_token (Some k) m = Some k"
      using assms by (auto simp: list_all_iff)
    then show ?thesis by (simp add: Some r)
  qed
qed

lemma replace_series_idem:
  assumes "list_all (\<lambda>k. replace_token (Some k) m = Some k) (map fst m)"
  shows "replace_series (replace_series s m) m = replace_series s m"
  by (simp add: replace_series_tokens comp_def apsnd_def map_prod_def case_prod_unfold replace_token_idem [OF assms])

lemma city_keys_fixed: "list_all (\<lambda>k. replace_token (Some k) city_replacement_mapping = Some k) (map fst city_replacement_mapping)"
  by code_simp

lemma country_keys_fixed: "list_all (\<lambda>k. replace_token (Some k) country_replacement_mapping = Some k) (map fst country_replacement_mapping)"
  by code_simp

lemma skills_keys_fixed: "list_all (\<lambda>k. replace_token (Some k) skills_replacement_mapping = Some k) (map fst skills_replacement_mapping)"
  by code_simp

text \<open>
  Claim C7. With each of the three exact-match tables of the source (city, country, skill),
  applying \<^verbatim>\<open>replace_series\<close> a second time gives the same series as applying it once. This
  holds for every token, so in particular for every canonical one: a key of the table, or a tag
  obtained by splitting a key such as \<open>API;REST\<close> on \<open>;\<close>. A canonical token need not be left
  as it is by the first application (\<open>REST\<close> becomes \<open>API;REST\<close>), but the second application
  changes nothing more.
\<close>

theorem replace_series_idempotent:
  "replace_series (replace_series s city_replacement_mapping) city_replacement_mapping =
     replace_series s city_replacement_mapping \<and>
   replace_series (replace_series s country_replacement_mapping) country_replacement_mapping =
     replace_series s country_replacement_mapping \<and>
   replace_series (replace_series s skills_replacement_mapping) skills_replacement_mapping =
     replace_series s skills_replacement_mapping"
  by (simp add: replace_series_idem city_keys_fixed country_keys_fixed skills_keys_fixed)

text \<open>The skill table on four canonical tokens: the result of one application.\<close>

lemma skills_canonical_examples:
  "replace_series [(0, Some ''REST''), (1, Some ''API''), (2, Some ''API;REST''), (3, Some ''IT SECURITY'')] skills_replacement_mapping
     = [(0, Some ''API;REST''), (1, Some ''API''), (2, Some ''API;REST''), (3, Some ''SECURITY'')]"
  by code_simp

text \<open>
  Claim C5, as amended. When a variant \<open>x\<close> is listed under two different tags \<open>k1\<close> (first) and
  \<open>k2\<close> (later) of an exact-match table, the entries being applied in declaration order, \<open>x\<close>
  is rewritten to the tag \<open>k1\<close> it appears under first: once rewritten it is no longer equal to
  the variant, so the later listing does nothing. (Side conditions: no entry before the first
  listing lists \<open>x\<close>, and no later entry lists \<open>k1\<close> as a variant.) The claim as stated has the
  later tag win.
\<close>

theorem replace_series_first_listing_wins:
  assumes "x \<in> set vs1" and "x \<in> set vs2" and "k1 \<noteq> k2"
    and "\<forall>e \<in> set pre. x \<notin> set (snd e)"
    and "\<forall>e \<in> set (mid @ (k2, vs2) # post). k1 \<notin> set (snd e)"
    and "j < length s" and "s ! j = (i, Some x)"
  shows "replace_series s (pre @ (k1, vs1) # mid @ (k2, vs2) # post) ! j = (i, Some k1)"
proof -
  have "replace_token (Some x) (pre @ (k1, vs1) # mid @ (k2, vs2) # post) =
      replace_token (Some k1) (mid @ (k2, vs2) # post)"
    using assms(1,4) by (simp add: replace_token_append replace_token_unmatched)
  also have "\<dots> = Some k1"
    using assms(5) by (rule replace_token_unmatched)
  finally show ?thesis
    using assms(6,7) by (simp add: replace_series_tokens)
qed

theorem replace_series_first_listing_wins_witness:
  "replace_series [(0, Some ''X'')] [(''A'', [''X'']), (''B'', [''X''])] ! 0 = (0, Some ''A'')"
  using replace_series_first_listing_wins [of "''X''" "[''X'']" "[''X'']" "''A''" "''B''" "[]" "[]" "[]" 0 "[(0, Some ''X'')]" 0]
  by simp

text \<open>
  The claim C5 as stated fails on the table \<open>A \<leftarrow> [X]\<close>, \<open>B \<leftarrow> [X]\<close>: the variant \<open>X\<close> is
  rewritten to \<open>A\<close>, the tag it appears under first, not to \<open>B\<close>.
\<close>

theorem replace_series_last_listing_counterexample:
  "replace_series [(0, Some ''X'')] [(''A'', [''X'']), (''B'', [''X''])] = [(0, Some ''A'')] \<and>
   replace_series [(0, Some ''X'')] [(''A'', [''X'']), (''B'', [''X''])] \<noteq> [(0, Some ''B'')]"
  by (simp add: replace_series_def replace_list_def)

section \<open>Splitting a joined value again\<close>

lemma re_split_not_Nil [simp]: "re_split pat x \<noteq> []"
  by (induction x) (simp_all split: list.splits)

lemma re_split_no_sep: "\<forall>c \<in> set x. c \<notin> set pat \<Longrightarrow> re_split pat x = [x]"
  by (induction x) simp_all

lemma re_split_append_sep:
  "\<forall>c \<in> set x. c \<notin> set pat \<Longrightarrow> s \<in> set pat \<Longrightarrow>
   re_split pat (x @ s # y) = x # re_split pat y"
  by (induction x) simp_all

lemma re_split_join:
  "xs \<noteq> [] \<Longrightarrow> \<forall>x \<in> set xs. s \<notin> set x \<Longrightarrow> re_split [s] (join [s] xs) = xs"
proof (induction "[s]" xs rule: join.induct)
  case 1
  then show ?case by simp
next
  case (2 x)
  then have "re_split [s] x = [x]" by (intro re_split_no_sep) auto
  then show ?case by simp
next
  case (3 x y ys)
  then have "re_split [s] (x @ s # join [s] (y # ys)) = x # re_split [s] (join [s] (y # ys))"
    by (intro re_split_append_sep) auto
  with 3 show ?case by simp
qed

lemma re_split_pieces: "p \<in> set (re_split pat x) \<Longrightarrow> c \<in> set pat \<Longrightarrow> c \<notin> set p"
proof (induction x arbitrary: p)
  case Nil
  then show ?case by simp
next
  case (Cons a x)
  show ?case
  proof (cases "a \<in> set pat")
    case True
    then show ?thesis using Cons by auto
  next
    case False
    obtain q qs where q: "re_split pat x = q # qs"
      using re_split_not_Nil [of pat x] by (cases "re_split pat x") auto
    from Cons.prems(1) False q consider "p = a # q" | "p \<in> set qs" by auto
    then show ?thesis
    proof cases
      case 1
      have "c \<notin> set q" using Cons.IH [of q] Cons.prems(2) q by simp
      then show ?thesis using 1 False Cons.prems(2) by auto
    next
      case 2
      then show ?thesis using Cons.IH [of p] Cons.prems(2) q by simp
    qed
  qed
qed

lemma set_strip: "set (strip x) \<subseteq> set x"
  by (auto simp: strip_def dest!: set_dropWhileD)

lemma char_upper_semi: "char_upper c = CHR '';'' \<Longrightarrow> c = CHR '';''"
  by (simp add: char_upper_def split: if_splits)

lemma upper_semi: "CHR '';'' \<in> set (upper x) \<Longrightarrow> CHR '';'' \<in> set x"
  by (auto simp: upper_def dest: char_upper_semi [OF sym])

lemma set_re_sub_empty: "set (re_sub_empty pat x) \<subseteq> set x"
  by (auto simp: re_sub_empty_def)

lemma empty_nan_Some: "empty_nan t = Some y \<Longrightarrow> t = Some y"
  by (cases t) (auto split: if_splits)


lemma str_join_resplit:
  assumes ok: "set_iter_ok set_iter" and ne: "g \<noteq> []"
    and semi: "\<forall>y. Some y \<in> set g \<longrightarrow> CHR '';'' \<notin> set y"
    and v: "str_join set_iter g = Some v"
  shows "distinct (re_split '';'' v) \<and> set (re_split '';'' v) = the ` set g"
proof -
  let ?xs = "set_iter (map the g)"
  have none: "None \<notin> set g" and vj: "v = join '';'' ?xs"
    using v by (auto simp: str_join_def split: if_splits)
  have d: "distinct ?xs" and st: "set ?xs = the ` set g"
    using ok by (simp_all add: set_iter_ok_def)
  have "?xs \<noteq> []" using st ne by auto
  moreover have "\<forall>x \<in> set ?xs. CHR '';'' \<notin> set x"
  proof
    fix x assume "x \<in> set ?xs"
    then obtain t where t: "t \<in> set g" "x = the t" using st by auto
    have "t \<noteq> None" using t(1) none by metis
    then have "Some x \<in> set g" using t by (cases t) simp_all
    then show "CHR '';'' \<notin> set x" using semi by blast
  qed
  ultimately have "re_split '';'' v = ?xs"
    unfolding vj by (rule re_split_join)
  then show ?thesis using d st by simp
qed

section \<open>No duplicate tag in an output row\<close>

lemma semi_free_strip: "semi_free t \<Longrightarrow> semi_free (map_option strip t)"
  using set_strip by (cases t) auto

lemma semi_free_upper: "semi_free t \<Longrightarrow> semi_free (map_option upper t)"
  using upper_semi by (cases t) auto

lemma semi_free_re_sub_empty: "semi_free t \<Longrightarrow> semi_free (map_option (re_sub_empty pat) t)"
  using set_re_sub_empty by (cases t) auto

lemma semi_free_empty_nan: "semi_free t \<Longrightarrow> semi_free (empty_nan t)"
  by (cases t) auto

lemma semi_free_replace_token:
  assumes "semi_free t" and "list_all (\<lambda>k. CHR '';'' \<notin> set k) (map fst m)"
  shows "semi_free (replace_token t m)"
proof (cases t)
  case None
  then show ?thesis by simp
next
  case (Some x)
  from replace_token_range [of x m] show ?thesis
    using assms by (auto simp: Some list_all_iff)
qed

lemma semi_free_startswith_token:
  "semi_free t \<Longrightarrow> list_all (\<lambda>v. CHR '';'' \<notin> set v) (map snd d) \<Longrightarrow>
   semi_free (startswith_token t d)"
proof (induction d arbitrary: t)
  case Nil
  then show ?case by simp
next
  case (Cons e d)
  obtain k v where e: "e = (k, v)" by (cases e)
  have "semi_free (replace_if_startswith t k v)"
    using Cons.prems by (cases t) (auto simp: e)
  then show ?case using Cons by (simp add: e)
qed

lemma split_explode_Some [simp]: "split_explode pat (Some x) = map Some (re_split pat x)"
  by (cases "re_split pat x") (simp_all add: split_explode_def)

lemma semi_free_split_explode:
  "t \<in> set (split_explode pat u) \<Longrightarrow> CHR '';'' \<in> set pat \<Longrightarrow> semi_free t"
  by (cases u) (auto dest: re_split_pieces)

lemma city_keys_semi: "list_all (\<lambda>k. CHR '';'' \<notin> set k) (map fst city_replacement_mapping)"
  by code_simp

lemma country_keys_semi: "list_all (\<lambda>k. CHR '';'' \<notin> set k) (map fst country_replacement_mapping)"
  by code_simp

lemma replacement_dict_semi: "list_all (\<lambda>v. CHR '';'' \<notin> set v) (map snd replacement_dict)"
  by code_simp

lemma city_tokens_semi_free:
  assumes "case sep of None \<Rightarrow> True | Some p \<Rightarrow> CHR '';'' \<in> set p" and "t \<in> set (city_tokens sep c)"
  shows "semi_free t"
proof -
  have "CHR '';'' \<in> set (sep_or_default sep ''-,;(/['')"
    using assms(1) by (cases sep) auto
  with assms(2) show ?thesis
    by (auto simp: city_tokens_def intro!: semi_free_replace_token semi_free_empty_nan
        semi_free_re_sub_empty semi_free_upper semi_free_strip city_keys_semi
        elim: semi_free_split_explode)
qed

lemma country_tokens_semi_free:
  assumes "case sep of None \<Rightarrow> True | Some p \<Rightarrow> CHR '';'' \<in> set p" and "t \<in> set (country_tokens sep c)"
  shows "semi_free t"
proof -
  have "CHR '';'' \<in> set (sep_or_default sep ''-,;(/['')"
    using assms(1) by (cases sep) auto
  with assms(2) show ?thesis
    by (auto simp: country_tokens_def intro!: semi_free_replace_token semi_free_empty_nan
        semi_free_upper semi_free_strip country_keys_semi
        elim: semi_free_split_explode)
qed

lemma str_separated_tokens_semi_free:
  assumes "case sep of None \<Rightarrow> True | Some p \<Rightarrow> CHR '';'' \<in> set p" and "t \<in> set (str_separated_tokens sep c)"
  shows "semi_free t"
proof -
  have "CHR '';'' \<in> set (sep_or_default sep '',;'')"
    using assms(1) by (cases sep) auto
  with assms(2) show ?thesis
    by (auto simp: str_separated_tokens_def intro!: semi_free_upper semi_free_strip
        elim: semi_free_split_explode)
qed

lemma skills_tokens_semi_free: "t \<in> set (skills_tokens sep c) \<Longrightarrow> semi_free t"
  by (auto simp: skills_tokens_def intro!: semi_free_strip elim: semi_free_split_explode)

lemma skills_extra_tokens_semi_free: "t \<in> set (skills_extra_tokens set_iter sep c) \<Longrightarrow> semi_free t"
  by (auto simp: skills_extra_tokens_def intro!: semi_free_startswith_token replacement_dict_semi
      elim: semi_free_split_explode)

lemma row_distinct:
  assumes "set_iter_ok set_iter" and "toks \<noteq> []" and "\<forall>t \<in> set toks. semi_free t"
    and "str_join set_iter toks = Some v"
  shows "distinct (re_split '';'' v)"
proof -
  have "\<forall>y. Some y \<in> set toks \<longrightarrow> CHR '';'' \<notin> set y"
    using assms(3) by fastforce
  from str_join_resplit [OF assms(1,2) this assms(4)] show ?thesis by simp
qed

lemma in_range_index: "(i, v) \<in> set (range_index xs) \<Longrightarrow> v \<in> set xs"
  by (auto simp: range_index_def in_set_enumerate_eq)

lemma city_tokens_not_Nil [simp]: "city_tokens sep c \<noteq> []"
  by (simp add: city_tokens_def)

lemma country_tokens_not_Nil [simp]: "country_tokens sep c \<noteq> []"
  by (simp add: country_tokens_def)

lemma str_separated_tokens_not_Nil [simp]: "str_separated_tokens sep c \<noteq> []"
  by (simp add: str_separated_tokens_def)

lemma skills_extra_tokens_not_Nil [simp]: "skills_extra_tokens set_iter sep c \<noteq> []"
  by (simp add: skills_extra_tokens_def)

text \<open>
  Claim C9. In every row of the output of every pipeline, splitting the non-null joined value on
  \<open>;\<close> again gives a list without duplicates, for every iteration order of sets. The city,
  country and generic-list pipelines need their separator class to contain \<open>;\<close>, as the
  default classes do (\<open>sep = None\<close>); the skill pipelines split on \<open>;\<close> themselves, whatever their
  separator \<open>sep'\<close>.
\<close>

theorem no_duplicate_tags:
  assumes ok: "set_iter_ok set_iter"
    and sep: "case sep of None \<Rightarrow> True | Some p \<Rightarrow> CHR '';'' \<in> set p"
    and r: "r \<in> {normalize_city_series set_iter sep (range_index col),
                 normalize_country_series set_iter sep (range_index col),
                 normalize_str_separated_series set_iter sep (range_index col),
                 normalize_skills_series set_iter sep' (range_index col),
                 normalize_skills_series_extra set_iter sep' (range_index col)}"
    and out: "r = Inr out" and v: "(i, Some v) \<in> set out"
  shows "distinct (re_split '';'' v)"
proof -
  from r consider
      (city) "r = normalize_city_series set_iter sep (range_index col)"
    | (country) "r = normalize_country_series set_iter sep (range_index col)"
    | (generic) "r = normalize_str_separated_series set_iter sep (range_index col)"
    | (skills) "r = normalize_skills_series set_iter sep' (range_index col)"
    | (extra) "r = normalize_skills_series_extra set_iter sep' (range_index col)"
    by blast
  then show ?thesis
  proof cases
    case city
    with out v obtain c where "str_join set_iter (city_tokens sep c) = Some v"
      by (auto simp: normalize_city_series_rows split: if_splits dest!: in_range_index)
    then show ?thesis
      using ok sep by (intro row_distinct [of set_iter "city_tokens sep c"]) (auto intro: city_tokens_semi_free)
  next
    case country
    with out v obtain c where "str_join set_iter (country_tokens sep c) = Some v"
      by (auto simp: normalize_country_series_rows split: if_splits dest!: in_range_index)
    then show ?thesis
      using ok sep by (intro row_distinct [of set_iter "country_tokens sep c"]) (auto intro: country_tokens_semi_free)
  next
    case generic
    with out v obtain c where "str_join set_iter (str_separated_tokens sep c) = Some v"
      by (auto simp: normalize_str_separated_series_rows split: if_splits dest!: in_range_index)
    then show ?thesis
      using ok sep by (intro row_distinct [of set_iter "str_separated_tokens sep c"]) (auto intro: str_separated_tokens_semi_free)
  next
    case skills
    with out v obtain c where "str_join set_iter (skills_tokens sep' c) = Some v"
      by (auto simp: normalize_skills_series_rows split: if_splits dest!: in_range_index)
    then show ?thesis
      using ok by (intro row_distinct [of set_iter "skills_tokens sep' c"]) (auto intro: skills_tokens_semi_free)
  next
    case extra
    with out v obtain c where "str_join set_iter (skills_extra_tokens set_iter sep' c) = Some v"
      by (auto simp: normalize_skills_series_extra_rows split: if_splits dest!: in_range_index)
    then show ?thesis
      using ok by (intro row_distinct [of set_iter "skills_extra_tokens set_iter sep' c"]) (auto intro: skills_extra_tokens_semi_free)
  qed
qed

lemma set_iter_ok_remdups: "set_iter_ok remdups"
  by (simp add: set_iter_ok_def)

theorem no_duplicate_tags_witness:
  "set_iter_ok remdups \<and>
   normalize_skills_series_extra remdups None
      (range_index [Str ''rest, Api (REST); api gateway'', Str ''SQL'']) =
      Inr [(0, Some ''API;REST''), (1, Some ''SQL'')] \<and>
   distinct (re_split '';'' ''API;REST'')"
proof -
  have run: "normalize_skills_series_extra remdups None
      (range_index [Str ''rest, Api (REST); api gateway'', Str ''SQL'']) =
      Inr [(0, Some ''API;REST''), (1, Some ''SQL'')]"
    by code_simp
  have "distinct (re_split '';'' ''API;REST'')"
    using run no_duplicate_tags [of remdups None
        "normalize_skills_series_extra remdups None (range_index [Str ''rest, Api (REST); api gateway'', Str ''SQL''])"
        "[Str ''rest, Api (REST); api gateway'', Str ''SQL'']" None
        "[(0, Some ''API;REST''), (1, Some ''SQL'')]" 0 "''API;REST''"]
    by (simp add: set_iter_ok_remdups)
  with run show ?thesis by (simp add: set_iter_ok_remdups)
qed

section \<open>Expansion of a multi-tag value\<close>







section \<open>Empty pieces\<close>

lemma distinct_single:
  assumes "distinct xs" and "set xs = {a}"
  shows "xs = [a]"
proof -
  have "length xs = 1"
    using assms distinct_card [of xs] by simp
  then obtain x where "xs = [x]"
    by (auto simp: length_Suc_conv)
  with assms(2) show ?thesis by simp
qed


lemma str_join_empty_strings:
  assumes "set_iter_ok set_iter" and "toks \<noteq> []" and "\<forall>t \<in> set toks. t = Some []"
  shows "str_join set_iter toks = Some []"
proof -
  have s: "set (map the toks) = {[]}"
    using assms(2,3) by (cases toks) auto
  have "distinct (set_iter (map the toks))" and "set (set_iter (map the toks)) = {[]}"
    using assms(1) s by (simp_all add: set_iter_ok_def)
  then have "set_iter (map the toks) = [[]]"
    by (rule distinct_single)
  moreover have "None \<notin> set toks" using assms(3) by auto
  ultimately show ?thesis by (simp add: str_join_def)
qed

lemma str_join_single:
  assumes "set_iter_ok set_iter"
  shows "str_join set_iter [Some x] = Some x"
proof -
  have "distinct (set_iter [x])" and "set (set_iter [x]) = {x}"
    using assms by (simp_all add: set_iter_ok_def)
  then have "set_iter [x] = [x]" by (rule distinct_single)
  then show ?thesis by (simp add: str_join_def)
qed



text \<open>
  The generic-list pipeline has no step that turns an empty piece into a null token: a row all of
  whose pieces trim to empty comes out as the empty string.
\<close>

lemma str_separated_keeps_empty_pieces:
  assumes "set_iter_ok set_iter" and "length col \<noteq> 1" and "i < length col" and "col ! i = Str x"
    and "\<forall>p \<in> set (re_split (sep_or_default sep '',;'') x). upper (strip p) = []"
  shows "\<exists>out. normalize_str_separated_series set_iter sep (range_index col) = Inr out \<and>
    length out = length col \<and> out ! i = (i, Some [])"
proof -
  have "str_join set_iter (str_separated_tokens sep (col ! i)) = Some []"
    using assms(1,5)
    by (intro str_join_empty_strings) (auto simp: str_separated_tokens_def assms(4))
  then show ?thesis
    using assms(2,3) by (simp add: normalize_str_separated_series_rows range_index_nth)
qed


section \<open>Inputs on which the code departs from the specification\<close>

text \<open>
  On a column of any length other than one, every pipeline returns one row for each input row,
  under the same label, computed from that row's cell alone.
\<close>

lemma row_count_invariance:
  assumes "length col \<noteq> 1"
  shows "normalize_city_series set_iter sep (range_index col) =
           Inr (range_index (map (\<lambda>c. str_join set_iter (city_tokens sep c)) col))"
    and "normalize_country_series set_iter sep (range_index col) =
           Inr (range_index (map (\<lambda>c. str_join set_iter (country_tokens sep c)) col))"
    and "normalize_str_separated_series set_iter sep (range_index col) =
           Inr (range_index (map (\<lambda>c. str_join set_iter (str_separated_tokens sep c)) col))"
    and "normalize_skills_series set_iter sep (range_index col) =
           Inr (range_index (map (\<lambda>c. str_join set_iter (skills_tokens sep c)) col))"
    and "normalize_skills_series_extra set_iter sep (range_index col) =
           Inr (range_index (map (\<lambda>c. str_join set_iter (skills_extra_tokens set_iter sep c)) col))"
  using assms
  by (simp_all add: normalize_city_series_rows normalize_country_series_rows
      normalize_str_separated_series_rows normalize_skills_series_rows
      normalize_skills_series_extra_rows)

text \<open>
  Claim C1 says that every pipeline returns, for every input column, a column of the same length
  whose row \<open>i\<close> is the cleaned cell \<open>i\<close>. The code does so for every column of a length other
  than one (\<open>row_count_invariance\<close>), but on a column of one row every pipeline raises instead of
  returning a one-row column, because of the \<^verbatim>\<open>squeeze()\<close> of \<^verbatim>\<open>squeeze_series\<close>.
\<close>

theorem one_row_column_raises:
  "normalize_city_series remdups None (range_index [Str ''Milano'']) = Inl AttributeError \<and>
   normalize_country_series remdups None (range_index [Str ''Italia'']) = Inl AttributeError \<and>
   normalize_str_separated_series remdups None (range_index [Str ''a;b'']) = Inl AttributeError \<and>
   normalize_skills_series remdups None (range_index [Str ''Python, SQL'']) = Inl AttributeError \<and>
   normalize_skills_series_extra remdups None (range_index [Str ''Python, SQL'']) = Inl AttributeError"
  by (simp add: normalize_city_series_rows normalize_country_series_rows
      normalize_str_separated_series_rows normalize_skills_series_rows
      normalize_skills_series_extra_rows)

text \<open>
  Claim C3 says that in the prefix pass the first matching prefix wins and its replacement is
  not scanned against the later rules. The code applies every rule to the whole series in turn,
  so a replacement is scanned against all later rules: a token starting with \<open>DATA MIN\<close> becomes
  \<open>DATA MINING\<close> at that rule and \<open>DATA MANAGEMENT\<close> at the later rule \<open>DATA M\<close>.
\<close>

theorem prefix_replacement_rescanned:
  "foldl (\<lambda>s (k, v). map (apsnd (\<lambda>e. replace_if_startswith e k v)) s)
     [(0::nat, Some ''DATA MINING'')] replacement_dict = [(0, Some ''DATA MANAGEMENT'')] \<and>
   normalize_skills_series_extra remdups None (range_index [Str ''Data Mining'', Str ''SQL'']) =
     Inr [(0, Some ''DATA MANAGEMENT''), (1, Some ''SQL'')]"
  by code_simp

text \<open>
  Claim C8 says that a token equal to no variant appears unchanged in the output of its row.
  In the city pipeline the unmatched token \<open>ROZZANO\<close> of the cell \<open>Rozzano/\<close> is lost: the empty
  piece after the slash becomes a null token and the whole row comes out null. The generic-list
  pipeline, given the same separator, keeps the token of such a row.
\<close>

theorem unmatched_token_lost:
  "normalize_city_series remdups None (range_index [Str ''Rozzano/'', Str ''Roma'']) =
     Inr [(0, None), (1, Some ''ROMA'')] \<and>
   normalize_str_separated_series remdups (Some ''/,;'') (range_index [Str ''Rozzano/'', Str ''Roma'']) =
     Inr [(0, Some ''ROZZANO;''), (1, Some ''ROMA'')]"
  by code_simp

text \<open>
  What does hold of unmatched tokens: \<^verbatim>\<open>replace_series\<close> leaves a token that no entry lists as
  it is, the prefix pass leaves a token that starts with no prefix as it is, and a token that
  starts with a prefix is replaced at the first such rule, the rules after it being applied to
  the replacement. The country cell \<open>CH\<close> comes out as \<open>CH\<close>.
\<close>

lemma unmatched_token_passes:
  assumes "\<forall>e \<in> set m. x \<notin> set (snd e)" and "j < length s" and "s ! j = (i, Some x)"
  shows "replace_series s m ! j = (i, Some x)"
  using assms by (simp add: replace_series_tokens replace_token_unmatched)

lemma unmatched_prefix_passes:
  "\<forall>e \<in> set d. \<not> prefix (fst e) x \<Longrightarrow> startswith_token (Some x) d = Some x"
  by (induction d) auto

lemma first_prefix_then_rest:
  assumes "\<forall>e \<in> set pre. \<not> prefix (fst e) x" and "prefix k x"
  shows "startswith_token (Some x) (pre @ (k, v) # post) = startswith_token (Some v) post"
  using assms by (simp add: startswith_token_def unmatched_prefix_passes [unfolded startswith_token_def])

lemma country_CH:
  assumes "set_iter_ok set_iter" and "length col \<noteq> 1" and "i < length col" and "col ! i = Str ''CH''"
  shows "\<exists>out. normalize_country_series set_iter None (range_index col) = Inr out \<and>
    length out = length col \<and> out ! i = (i, Some ''CH'')"
proof -
  have "country_tokens None (Str ''CH'') = [Some ''CH'']" by code_simp
  then show ?thesis
    using assms by (simp add: normalize_country_series_rows range_index_nth str_join_single)
qed

end
